theory Spec2Isabelle
  imports Complex_Main
begin

section \<open>Python values and conversions used by S3/Progress.py\<close>

text \<open>
  Python integers are unbounded and are modelled by \<open>int\<close>; Python's \<open>//\<close> on integers
  rounds towards minus infinity, as \<open>div\<close> on \<open>int\<close> does. A Python float is modelled by
  the exact rational it stands for (\<open>rat\<close>): rounding of the binary representation is
  left out, raising on a zero divisor is kept. Strings are \<open>string\<close>.
\<close>

datatype exn = ZeroDivisionError | TypeError | AttributeError

text \<open>A number as an external formatter may return it: an integer or a float.\<close>

datatype pynum = PInt int | PFloat rat

text \<open>An argument passed to the \<open>write\<close> of a stream.\<close>

datatype pyarg = AStr string | AInt int

definition digit_char :: "nat \<Rightarrow> char" where
  "digit_char d = ''0123456789'' ! d"

fun digits :: "nat \<Rightarrow> string" where
  "digits n = (if n < 10 then [digit_char n] else digits (n div 10) @ [digit_char (n mod 10)])"

declare digits.simps [simp del]

text \<open>\<open>str(i)\<close>, \<open>"%d" % i\<close> and \<open>"%s" % i\<close> for an integer \<open>i\<close>.\<close>

definition str_int :: "int \<Rightarrow> string" where
  "str_int i = (if i < 0 then ''-'' @ digits (nat (- i)) else digits (nat i))"

text \<open>Truth value of an optional integer: \<open>None\<close> and \<open>0\<close> are false.\<close>

definition is_true_int :: "int option \<Rightarrow> bool" where
  "is_true_int v = (case v of None \<Rightarrow> False | Some n \<Rightarrow> n \<noteq> 0)"

text \<open>Truth value of an optional string: \<open>None\<close> and the empty string are false.\<close>

definition is_true_str :: "string option \<Rightarrow> bool" where
  "is_true_str v = (case v of None \<Rightarrow> False | Some m \<Rightarrow> m \<noteq> [])"

text \<open>\<open>s.rjust(w)\<close>, also the padding of \<open>%3d\<close>, \<open>%4d\<close> and \<open>%7.2f\<close>.\<close>

definition rjust :: "nat \<Rightarrow> string \<Rightarrow> string" where
  "rjust w s = replicate (w - length s) (CHR '' '') @ s"

text \<open>\<open>%d\<close> applied to a float converts it as \<open>int(x)\<close> does: towards zero.\<close>

definition int_of_float :: "rat \<Rightarrow> int" where
  "int_of_float x = (if 0 \<le> x then \<lfloor>x\<rfloor> else \<lceil>x\<rceil>)"

definition round_half_even :: "rat \<Rightarrow> int" where
  "round_half_even x =
     (let q = \<lfloor>x\<rfloor>; r = x - of_int q
      in if r < 1 / 2 then q else if 1 / 2 < r then q + 1 else if even q then q else q + 1)"

text \<open>
  \<open>"%.2f" % x\<close>: two decimals, the sign kept also when the digits are all zero. The
  exact rational is rounded, so the last digit can differ from what Python prints for
  the double nearest to it.
\<close>

definition fmt_2f :: "rat \<Rightarrow> string" where
  "fmt_2f x =
     (let n = nat (round_half_even (\<bar>x\<bar> * 100))
      in (if x < 0 then ''-'' else []) @ digits (n div 100) @ ''.'' @
         [digit_char (n div 10 mod 10), digit_char (n mod 10)])"

fun frac_digits :: "nat \<Rightarrow> rat \<Rightarrow> string" where
  "frac_digits 0 f = []"
| "frac_digits (Suc k) f =
     (let d = \<lfloor>f * 10\<rfloor>; f' = f * 10 - of_int d
      in digit_char (nat d) # (if f' = 0 then [] else frac_digits k f'))"

text \<open>
  \<open>str(x)\<close> of a float: the decimal expansion, at least one and at most twelve
  decimals. (Python prints the shortest decimal that reads back as the same double;
  on exact rationals the expansion is cut instead.)
\<close>

definition str_float :: "rat \<Rightarrow> string" where
  "str_float x =
     (if x < 0 then ''-'' else []) @ digits (nat \<lfloor>\<bar>x\<bar>\<rfloor>) @ ''.'' @
     frac_digits 12 (\<bar>x\<bar> - of_int \<lfloor>\<bar>x\<bar>\<rfloor>)"

text \<open>\<open>"%s" % v\<close> and \<open>float(v)\<close> for a number.\<close>

definition str_num :: "pynum \<Rightarrow> string" where
  "str_num v = (case v of PInt i \<Rightarrow> str_int i | PFloat x \<Rightarrow> str_float x)"

definition float_of :: "pynum \<Rightarrow> rat" where
  "float_of v = (case v of PInt i \<Rightarrow> of_int i | PFloat x \<Rightarrow> x)"

section \<open>The clocks and the output stream\<close>

text \<open>
  A method reads the clocks at most three times: \<open>datetime.datetime.now()\<close> once
  (\<open>dt_now\<close>, in microseconds, the resolution of \<open>datetime\<close>) and \<open>time.time()\<close>
  twice in \<open>_display_needed\<close> (\<open>time_1\<close> for the comparison, \<open>time_2\<close> for the
  value stored, in seconds). The readings a call would get are its argument.
\<close>

record readings =
  dt_now :: int
  time_1 :: rat
  time_2 :: rat

text \<open>
  What the tracker objects of a process share: the class attribute
  \<open>Progress._last_display\<close> (inherited by both subclasses) and the stream
  \<open>sys.stdout\<close>, here the text written to it so far.
\<close>

record process =
  Progress_last_display :: rat
  stdout :: string

text \<open>The class body sets \<open>_last_display = 0\<close>; nothing has been written yet.\<close>

definition process_start :: process where
  "process_start = \<lparr>Progress_last_display = 0, stdout = []\<rparr>"

definition write_text :: "string \<Rightarrow> process \<Rightarrow> process" where
  "write_text t p = p\<lparr>stdout := stdout p @ t\<rparr>"

text \<open>
  \<open>write\<close> of a text stream takes exactly one argument, a string; a call with any
  other argument list raises \<open>TypeError\<close> and writes nothing. \<open>flush\<close> does not
  change the text written.
\<close>

fun stdout_write :: "pyarg list \<Rightarrow> process \<Rightarrow> exn + process" where
  "stdout_write [AStr t] p = Inr (write_text t p)"
| "stdout_write args p = Inl TypeError"

section \<open>Progress and its subclasses\<close>

record transfer_labels =
  action :: string
  source :: string
  destination :: string
  extra :: string

datatype progress_class = Progress | ProgressANSI | ProgressCR

text \<open>
  The attributes of one tracker object. \<open>last_milestone\<close> and \<open>last_display\<close> (the
  instance attribute \<open>_last_display\<close>) are \<open>None\<close> while the object has no such
  attribute of its own. Times are microseconds.
\<close>

record progress =
  cls :: progress_class
  labels :: transfer_labels
  total_size :: int
  initial_position :: int
  current_position :: int
  time_start :: int
  time_last :: int
  time_current :: int
  last_milestone :: "int option"
  last_display :: "rat option"

text \<open>
  \<open>S3.Utils.formatSize(size, human_readable, floating_point)\<close> is not among the
  sources: it is a parameter of the model, from a number and two flags to a number and
  a unit prefix. The call with two arguments leaves the third at its default, false.
\<close>

type_synonym formatter = "pynum \<Rightarrow> bool \<Rightarrow> bool \<Rightarrow> pynum \<times> string"

text \<open>
  What a method call leaves: the exception it raised, if any, the object and the
  process. An assignment made before a raise stays made.
\<close>

type_synonym outcome = "exn option \<times> progress \<times> process"

definition SCI :: string where
  "SCI = [CHR 0x1B, CHR ''['']"

definition ANSI_save_cursor_pos :: string where
  "ANSI_save_cursor_pos = SCI @ ''s''"

definition ANSI_restore_cursor_pos :: string where
  "ANSI_restore_cursor_pos = SCI @ ''u''"

definition ANSI_erase_to_eol :: string where
  "ANSI_erase_to_eol = SCI @ ''0K''"

definition CR_char :: string where
  "CR_char = [CHR 0x0D]"

text \<open>\<open>Progress.output_labels\<close>\<close>

definition output_labels :: "progress \<Rightarrow> process \<Rightarrow> process" where
  "output_labels self p =
     write_text
       (action (labels self) @ '': '' @ [CHR 0x27] @ source (labels self) @ [CHR 0x27] @
        '' -> '' @ [CHR 0x27] @ destination (labels self) @ [CHR 0x27] @ ''  '' @
        extra (labels self) @ ''\<newline>'') p"

text \<open>
  Reading \<open>self._last_display\<close>: the instance attribute if the object has one, the
  class attribute otherwise.
\<close>

definition get_last_display :: "progress \<Rightarrow> process \<Rightarrow> rat" where
  "get_last_display self p =
     (case last_display self of Some t \<Rightarrow> t | None \<Rightarrow> Progress_last_display p)"

text \<open>
  \<open>Progress._display_needed\<close>. The assignment \<open>self._last_display = ...\<close> sets the
  attribute of the object; the class attribute is not written.
\<close>

definition display_needed :: "readings \<Rightarrow> progress \<Rightarrow> process \<Rightarrow> bool \<times> progress" where
  "display_needed rd self p =
     (if time_1 rd - get_last_display self p > 1
      then (True, self\<lparr>last_display := Some (time_2 rd)\<rparr>)
      else (False, self))"

text \<open>
  \<open>timedelta.days * 86400 + timedelta.seconds + float(timedelta.microseconds) / 1000000.0\<close>
  for a difference \<open>td\<close> of two times: Python keeps \<open>0 \<le> seconds < 86400\<close> and
  \<open>0 \<le> microseconds < 1000000\<close>, the days carry the sign.
\<close>

definition sec_elapsed_of :: "int \<Rightarrow> rat" where
  "sec_elapsed_of td =
     of_int (td div 86400000000) * 86400 + of_int (td mod 86400000000 div 1000000) +
     of_int (td mod 1000000) / 1000000"

text \<open>
  \<open>Progress.display\<close>, the plain variant. The division by \<open>sec_elapsed\<close> raises
  when the elapsed time is zero, the division by \<open>total_size\<close> when the total is
  zero. \<open>print_size[1] += "B"\<close> is taken to succeed: the result of the formatter is
  a pair whose second component can be replaced. The last \<open>write\<close> is called with
  two arguments, as the source has it.
\<close>

definition Progress_display ::
  "formatter \<Rightarrow> bool \<Rightarrow> string option \<Rightarrow> progress \<Rightarrow> process \<Rightarrow> outcome" where
  "Progress_display formatSize new_file done_message self p =
     (if new_file then (None, self\<lparr>last_milestone := Some 0\<rparr>, output_labels self p)
      else if current_position self = total_size self then
        (let print_size = formatSize (PInt (current_position self)) True False;
             print_size = (if snd print_size \<noteq> []
                           then (fst print_size, snd print_size @ ''B'') else print_size);
             timedelta = time_current self - time_start self;
             sec_elapsed = sec_elapsed_of timedelta
         in if sec_elapsed = 0 then (Some ZeroDivisionError, self, p)
            else
              (let print_speed =
                     formatSize
                       (PFloat (of_int (current_position self - initial_position self) / sec_elapsed))
                       True True
               in (None, self,
                   write_text
                     (''100%  '' @ str_num (fst print_size) @ snd print_size @ '' in '' @
                      fmt_2f sec_elapsed @ ''s ('' @ fmt_2f (float_of (fst print_speed)) @ '' '' @
                      snd print_speed @ ''B/s)\<newline>'') p)))
      else if total_size self = 0 then (Some ZeroDivisionError, self, p)
      else
        (let rel_position = (current_position self * 100) div total_size self
         in case last_milestone self of
              None \<Rightarrow> (Some AttributeError, self, p)
            | Some m \<Rightarrow>
                if rel_position \<ge> m then
                  (let self = self\<lparr>last_milestone := Some ((rel_position div 5) * 5)\<rparr>
                   in case stdout_write [AStr ''%d%% '', AInt (the (last_milestone self))] p of
                        Inl e \<Rightarrow> (Some e, self, p)
                      | Inr p' \<Rightarrow> (None, self, p'))
                else (None, self, p)))"

text \<open>
  \<open>self.total_size and ((self.current_position * 100) // self.total_size) or 0\<close>:
  \<open>and\<close> gives its left operand when that is zero, without evaluating the right
  one; \<open>or\<close> gives its right operand when the left one is zero.
\<close>

definition percent :: "progress \<Rightarrow> int" where
  "percent self =
     (let a = (if total_size self \<noteq> 0
               then (current_position self * 100) div total_size self
               else total_size self)
      in if a \<noteq> 0 then a else 0)"

text \<open>
  \<open>print_speed\<close> of the two subclasses: the formatter is asked only when the elapsed
  time is positive.
\<close>

definition print_speed_of :: "formatter \<Rightarrow> progress \<Rightarrow> rat \<Rightarrow> pynum \<times> string" where
  "print_speed_of formatSize self sec_elapsed =
     (if sec_elapsed > 0
      then formatSize
             (PFloat (of_int (current_position self - initial_position self) / sec_elapsed))
             True True
      else (PInt 0, []))"

text \<open>The status line of \<open>ProgressANSI.display\<close>.\<close>

definition status_ANSI :: "formatter \<Rightarrow> progress \<Rightarrow> string" where
  "status_ANSI formatSize self =
     (let timedelta = time_current self - time_start self;
          sec_elapsed = sec_elapsed_of timedelta;
          print_speed = print_speed_of formatSize self sec_elapsed
      in rjust (length (str_int (total_size self))) (str_int (current_position self)) @
         '' of '' @ str_int (total_size self) @ ''   '' @ rjust 3 (str_int (percent self)) @
         ''% in '' @ str_int (int_of_float sec_elapsed) @ ''s  '' @
         fmt_2f (float_of (fst print_speed)) @ '' '' @ snd print_speed @ ''B/s'')"

text \<open>The status line of \<open>ProgressCR.display\<close>.\<close>

definition status_CR :: "formatter \<Rightarrow> progress \<Rightarrow> string" where
  "status_CR formatSize self =
     (let timedelta = time_current self - time_start self;
          sec_elapsed = sec_elapsed_of timedelta;
          print_speed = print_speed_of formatSize self sec_elapsed
      in '' '' @ rjust (length (str_int (total_size self))) (str_int (current_position self)) @
         '' of '' @ str_int (total_size self) @ ''   '' @ rjust 3 (str_int (percent self)) @
         ''% in '' @ rjust 4 (str_int (int_of_float sec_elapsed)) @ ''s  '' @
         rjust 7 (fmt_2f (float_of (fst print_speed))) @ '' '' @ snd print_speed @ ''B/s'')"

text \<open>
  The test \<open>not (new_file or done_message) and not self._display_needed()\<close> of both
  subclasses: \<open>_display_needed\<close> is called only when the left conjunct is true. The
  result is whether the call returns without rendering, and the object.
\<close>

definition suppressed ::
  "readings \<Rightarrow> bool \<Rightarrow> string option \<Rightarrow> progress \<Rightarrow> process \<Rightarrow> bool \<times> progress" where
  "suppressed rd new_file done_message self p =
     (if new_file \<or> is_true_str done_message then (False, self)
      else (let r = display_needed rd self p in (\<not> fst r, snd r)))"

text \<open>\<open>ProgressANSI.display\<close>\<close>

definition ProgressANSI_display ::
  "formatter \<Rightarrow> readings \<Rightarrow> bool \<Rightarrow> string option \<Rightarrow> progress \<Rightarrow> process \<Rightarrow> outcome" where
  "ProgressANSI_display formatSize rd new_file done_message self p =
     (if new_file then (None, self, write_text ANSI_save_cursor_pos (output_labels self p))
      else
        (let r = suppressed rd new_file done_message self p; self = snd r
         in if fst r then (None, self, p)
            else
              (let p = write_text ANSI_restore_cursor_pos p;
                   p = write_text ANSI_erase_to_eol p;
                   p = write_text (status_ANSI formatSize self) p;
                   p = (if is_true_str done_message
                        then write_text (''  '' @ the done_message @ ''\<newline>'') p else p)
               in (None, self, p))))"

text \<open>\<open>ProgressCR.display\<close>\<close>

definition ProgressCR_display ::
  "formatter \<Rightarrow> readings \<Rightarrow> bool \<Rightarrow> string option \<Rightarrow> progress \<Rightarrow> process \<Rightarrow> outcome" where
  "ProgressCR_display formatSize rd new_file done_message self p =
     (if new_file then (None, self, output_labels self p)
      else
        (let r = suppressed rd new_file done_message self p; self = snd r
         in if fst r then (None, self, p)
            else
              (let p = write_text CR_char p;
                   output = status_CR formatSize self;
                   p = write_text output p;
                   p = (if is_true_str done_message
                        then write_text (''  '' @ the done_message @ ''\<newline>'') p else p)
               in (None, self, p))))"

text \<open>\<open>self.display(...)\<close>: the method of the class of the object.\<close>

definition display ::
  "formatter \<Rightarrow> readings \<Rightarrow> bool \<Rightarrow> string option \<Rightarrow> progress \<Rightarrow> process \<Rightarrow> outcome" where
  "display formatSize rd new_file done_message self p =
     (case cls self of
        Progress \<Rightarrow> Progress_display formatSize new_file done_message self p
      | ProgressANSI \<Rightarrow> ProgressANSI_display formatSize rd new_file done_message self p
      | ProgressCR \<Rightarrow> ProgressCR_display formatSize rd new_file done_message self p)"

text \<open>\<open>Progress.new_file\<close>\<close>

definition new_file ::
  "formatter \<Rightarrow> readings \<Rightarrow> transfer_labels \<Rightarrow> int \<Rightarrow> progress \<Rightarrow> process \<Rightarrow> outcome" where
  "new_file formatSize rd lbls tsize self p =
     (let self = self\<lparr>labels := lbls\<rparr>;
          self = self\<lparr>total_size := tsize\<rparr>;
          self = self\<lparr>initial_position := 0\<rparr>;
          self = self\<lparr>current_position := initial_position self\<rparr>;
          self = self\<lparr>time_start := dt_now rd\<rparr>;
          self = self\<lparr>time_last := time_start self\<rparr>;
          self = self\<lparr>time_current := time_start self\<rparr>
      in display formatSize rd True None self p)"

text \<open>
  \<open>Progress.__init__\<close>: a new object of class \<open>c\<close>, with no \<open>last_milestone\<close> and
  no \<open>_last_display\<close> of its own; \<open>new_file\<close> assigns every other attribute.
\<close>

definition Progress_init ::
  "progress_class \<Rightarrow> formatter \<Rightarrow> readings \<Rightarrow> transfer_labels \<Rightarrow> int \<Rightarrow> process \<Rightarrow> outcome" where
  "Progress_init c formatSize rd lbls tsize p =
     new_file formatSize rd lbls tsize
       \<lparr>cls = c, labels = lbls, total_size = tsize, initial_position = 0, current_position = 0,
        time_start = dt_now rd, time_last = dt_now rd, time_current = dt_now rd,
        last_milestone = None, last_display = None\<rparr> p"

text \<open>\<open>Progress.update\<close>; an argument left out is \<open>-1\<close>.\<close>

definition update ::
  "formatter \<Rightarrow> readings \<Rightarrow> int \<Rightarrow> int \<Rightarrow> progress \<Rightarrow> process \<Rightarrow> outcome" where
  "update formatSize rd cur_position delta_position self p =
     (let self = self\<lparr>time_last := time_current self\<rparr>;
          self = self\<lparr>time_current := dt_now rd\<rparr>;
          self = (if cur_position > - 1 then self\<lparr>current_position := cur_position\<rparr>
                  else if delta_position > - 1
                  then self\<lparr>current_position := current_position self + delta_position\<rparr>
                  else self)
      in display formatSize rd False None self p)"

text \<open>\<open>Progress.done\<close> (\<open>done\<close> is a keyword of Isabelle).\<close>

definition done' ::
  "formatter \<Rightarrow> readings \<Rightarrow> string \<Rightarrow> progress \<Rightarrow> process \<Rightarrow> outcome" where
  "done' formatSize rd message self p = display formatSize rd False (Some message) self p"

section \<open>A formatter to run the model with\<close>

text \<open>
  Modelled from the spec: \<open>S3.Utils.formatSize\<close> is missing from the sources. The
  specification gives its interface, \<open>format_size(bytes, human, rate) -> (value: float,
  unit_prefix: string)\<close>, and a binary (1024-based) ladder of prefixes: empty, k, M,
  G and so on. The theorems below hold for every formatter; this one only runs the
  model on concrete inputs.
\<close>

fun ladder :: "rat \<Rightarrow> string \<Rightarrow> string list \<Rightarrow> pynum \<times> string" where
  "ladder x u [] = (PFloat x, u)"
| "ladder x u (c # cs) = (if 1024 \<le> x then ladder (x / 1024) c cs else (PFloat x, u))"

definition format_size :: formatter where
  "format_size bytes human rate =
     (if human then ladder (float_of bytes) [] [''k'', ''M'', ''G'', ''T'']
      else (PFloat (float_of bytes), []))"

section \<open>Calls one after the other\<close>

abbreviation raised :: "outcome \<Rightarrow> exn option" where
  "raised r \<equiv> fst r"

abbreviation object :: "outcome \<Rightarrow> progress" where
  "object r \<equiv> fst (snd r)"

abbreviation process_of :: "outcome \<Rightarrow> process" where
  "process_of r \<equiv> snd (snd r)"

text \<open>The three methods a caller uses on a tracker, with their arguments.\<close>

datatype call = NewFile transfer_labels int | Update int int | Done string

definition invoke :: "formatter \<Rightarrow> readings \<Rightarrow> call \<Rightarrow> progress \<Rightarrow> process \<Rightarrow> outcome" where
  "invoke formatSize rd c self p =
     (case c of
        NewFile lbls tsize \<Rightarrow> new_file formatSize rd lbls tsize self p
      | Update cur_position delta_position \<Rightarrow>
          update formatSize rd cur_position delta_position self p
      | Done message \<Rightarrow> done' formatSize rd message self p)"

text \<open>
  The outcomes of a list of calls on one object, each call with the clock readings it
  gets. A caller that catches an exception goes on with the next call, on the object as
  the raise left it; the outcomes up to the first raise are those of a caller that
  does not.
\<close>

fun run :: "formatter \<Rightarrow> (readings \<times> call) list \<Rightarrow> progress \<Rightarrow> process \<Rightarrow> outcome list" where
  "run formatSize [] self p = []"
| "run formatSize ((rd, c) # cs) self p =
     (let r = invoke formatSize rd c self p
      in r # run formatSize cs (object r) (process_of r))"

text \<open>Labels and clock readings for the examples.\<close>

definition example_labels :: transfer_labels where
  "example_labels =
     \<lparr>action = ''upload'', source = ''a.txt'', destination = ''s3://b/a.txt'',
      extra = ''[1 of 1]''\<rparr>"

definition clock :: "int \<Rightarrow> rat \<Rightarrow> readings" where
  "clock us t = \<lparr>dt_now = us, time_1 = t, time_2 = t\<rparr>"

text \<open>
  A call that carries no message to show and announces no new file: an \<open>update\<close>,
  or a \<open>done\<close> whose message is empty.
\<close>

definition throttled_call :: "call \<Rightarrow> bool" where
  "throttled_call c =
     (case c of NewFile lbls tsize \<Rightarrow> False | Update cur_position delta_position \<Rightarrow> True
      | Done message \<Rightarrow> message = [])"

text \<open>
  A plain tracker for a transfer of 100 bytes, made when the clocks show 0, and
  updated to position 100 one second later.
\<close>

definition plain_complete :: outcome where
  "plain_complete =
     (let r = Progress_init Progress format_size (clock 0 1000) example_labels 100 process_start
      in update format_size (clock 1000000 1001) 100 (- 1) (object r) (process_of r))"

text \<open>
  An ANSI-cursor tracker for 100 bytes, made when \<open>time.time()\<close> shows 1000; the
  same after an \<open>update\<close> to position 10 at 1002; and after a \<open>done("note")\<close> at
  1002.2 that follows.
\<close>

definition ansi_started :: outcome where
  "ansi_started =
     Progress_init ProgressANSI format_size (clock 0 1000) example_labels 100 process_start"

definition ansi_rendered :: outcome where
  "ansi_rendered =
     invoke format_size (clock 2000000 1002) (Update 10 (- 1))
       (object ansi_started) (process_of ansi_started)"

definition ansi_noted :: outcome where
  "ansi_noted =
     last (ansi_rendered #
           run format_size [(clock 2200000 (5011 / 5), Done ''note'')]
             (object ansi_rendered) (process_of ansi_rendered))"

text \<open>
  A second ANSI-cursor tracker, made at 1002.2 in the process in which the first one
  has rendered at 1002.
\<close>

definition ansi_second :: outcome where
  "ansi_second =
     Progress_init ProgressANSI format_size (clock 2200000 (5011 / 5)) example_labels 50
       (process_of ansi_rendered)"

text \<open>
  The plain tracker above used again, for a second transfer of 100 bytes, and three
  updates of it: to position 30, by 40 more, to position 100.
\<close>

definition plain_reused :: outcome where
  "plain_reused =
     new_file format_size (clock 5000000 1005) example_labels 100
       (object plain_complete) (process_of plain_complete)"

definition example_updates :: "(readings \<times> int \<times> int) list" where
  "example_updates =
     [(clock 6000000 1006, 30, - 1), (clock 7000000 1007, - 1, 40), (clock 8000000 1008, 100, - 1)]"

text \<open>A plain tracker for a transfer of 10 bytes.\<close>

definition plain_small :: outcome where
  "plain_small =
     Progress_init Progress format_size (clock 0 1000) example_labels 10 process_start"

section \<open>StatsInfo\<close>

text \<open>
  The eight attributes of \<open>StatsInfo\<close>, each \<open>None\<close> until set. The attribute
  \<open>size\<close> is written \<open>size'\<close> here, \<open>size\<close> being a constant of HOL.
\<close>

record StatsInfo =
  files :: "int option"
  size' :: "int option"
  files_transferred :: "int option"
  size_transferred :: "int option"
  files_copied :: "int option"
  size_copied :: "int option"
  files_deleted :: "int option"
  size_deleted :: "int option"

text \<open>\<open>StatsInfo.__init__\<close>\<close>

definition StatsInfo_init :: StatsInfo where
  "StatsInfo_init =
     \<lparr>files = None, size' = None, files_transferred = None, size_transferred = None,
      files_copied = None, size_copied = None, files_deleted = None, size_deleted = None\<rparr>"

text \<open>\<open>StatsInfo.format_output\<close>, statement by statement.\<close>

definition format_output :: "StatsInfo \<Rightarrow> string" where
  "format_output self =
    (let outstr = '''';
         outstr =
           (if files self \<noteq> None then
              (let tmp_str = ''Number of files: '' @ str_int (the (files self));
                   tmp_str = (if size' self \<noteq> None
                              then tmp_str @ '' ('' @ str_int (the (size' self)) @ '' bytes) ''
                              else tmp_str)
               in outstr @ ''\<newline>Stats: '' @ tmp_str)
            else outstr);
         outstr =
           (if is_true_int (files_transferred self) then
              (let tmp_str = ''Number of files transferred: '' @ str_int (the (files_transferred self));
                   tmp_str = (if size_transferred self \<noteq> None
                              then tmp_str @ '' ('' @ str_int (the (size_transferred self)) @ '' bytes) ''
                              else tmp_str)
               in outstr @ ''\<newline>Stats: '' @ tmp_str)
            else outstr);
         outstr =
           (if is_true_int (files_copied self) then
              (let tmp_str = ''Number of files copied: '' @ str_int (the (files_copied self));
                   tmp_str = (if size_copied self \<noteq> None
                              then tmp_str @ '' ('' @ str_int (the (size_copied self)) @ '' bytes) ''
                              else tmp_str)
               in outstr @ ''\<newline>Stats: '' @ tmp_str)
            else outstr);
         outstr =
           (if is_true_int (files_deleted self) then
              (let tmp_str = ''Number of files deleted: '' @ str_int (the (files_deleted self));
                   tmp_str = (if size_deleted self \<noteq> None
                              then tmp_str @ '' ('' @ str_int (the (size_deleted self)) @ '' bytes) ''
                              else tmp_str)
               in outstr @ ''\<newline>Stats: '' @ tmp_str)
            else outstr)
     in outstr)"

subsection \<open>The report as the specification words it\<close>

text \<open>
  One line of the report, as the specification describes it: the prefix
  \<open>"\nStats: "\<close>, then \<open>"Number of files <category>: <N>"\<close>, then
  \<open>" (<size> bytes) "\<close> when the size is set. The category is the empty string for the
  total and \<open>" transferred"\<close>, \<open>" copied"\<close>, \<open>" deleted"\<close> for the others.
\<close>

definition stats_line :: "string \<Rightarrow> int \<Rightarrow> int option \<Rightarrow> string" where
  "stats_line category n sz =
     ''\<newline>Stats: '' @ ''Number of files'' @ category @ '': '' @ str_int n @
     (case sz of None \<Rightarrow> '''' | Some z \<Rightarrow> '' ('' @ str_int z @ '' bytes) '')"

text \<open>The total line is there when the count is not absent, also when it is zero.\<close>

definition total_line :: "StatsInfo \<Rightarrow> string" where
  "total_line st =
     (case files st of None \<Rightarrow> '''' | Some n \<Rightarrow> stats_line '''' n (size' st))"

text \<open>A category line is there when the count is set and not zero.\<close>

definition category_line :: "string \<Rightarrow> int option \<Rightarrow> int option \<Rightarrow> string" where
  "category_line category count sz =
     (case count of
        None \<Rightarrow> ''''
      | Some n \<Rightarrow> if n = 0 then '''' else stats_line category n sz)"

section \<open>Properties of the tracker\<close>

subsection \<open>Auxiliary facts\<close>

lemma stdout_write_text [simp]:
  "stdout (write_text t p) = stdout p @ t"
  "Progress_last_display (write_text t p) = Progress_last_display p"
  by (simp_all add: write_text_def)

lemma sec_elapsed_of_eq: "sec_elapsed_of td = of_int td / 1000000"
proof -
  define d where "d = td div 86400000000"
  define r where "r = td mod 86400000000"
  have td: "td = d * 86400000000 + r"
    by (simp add: d_def r_def)
  have r: "r = (r div 1000000) * 1000000 + r mod 1000000"
    by simp
  have m: "td mod 1000000 = r mod 1000000"
    unfolding r_def by (rule mod_mod_cancel [symmetric]) simp
  have "(of_int td :: rat) = of_int d * 86400000000 + of_int r"
    by (subst td) simp
  also have "(of_int r :: rat) = of_int ((r div 1000000) * 1000000 + r mod 1000000)"
    by simp
  also have "\<dots> = of_int (r div 1000000) * 1000000 + of_int (r mod 1000000)"
    by (simp only: of_int_add of_int_mult of_int_numeral)
  finally have "(of_int td :: rat) / 1000000 =
      of_int d * 86400 + of_int (r div 1000000) + of_int (r mod 1000000) / 1000000"
    by (simp add: field_simps)
  then show ?thesis
    unfolding sec_elapsed_of_def m d_def [symmetric] r_def [symmetric] by simp
qed

lemma sec_elapsed_of_zero [simp]: "sec_elapsed_of td = 0 \<longleftrightarrow> td = 0"
  by (simp add: sec_elapsed_of_eq)

lemma sec_elapsed_of_pos [simp]: "0 < sec_elapsed_of td \<longleftrightarrow> 0 < td"
  by (simp add: sec_elapsed_of_eq)

lemma Progress_display_object:
  "fst (snd (Progress_display fmt nf dm self p)) =
     self\<lparr>last_milestone := last_milestone (fst (snd (Progress_display fmt nf dm self p)))\<rparr>"
  by (simp add: Progress_display_def Let_def split: option.split sum.split)

lemma suppressed_object:
  "snd (suppressed rd nf dm self p) =
     self\<lparr>last_display := last_display (snd (suppressed rd nf dm self p))\<rparr>"
  by (simp add: suppressed_def display_needed_def Let_def)

lemma ProgressANSI_display_object:
  "fst (snd (ProgressANSI_display fmt rd nf dm self p)) =
     self\<lparr>last_display := last_display (fst (snd (ProgressANSI_display fmt rd nf dm self p)))\<rparr>"
proof (cases nf)
  case True
  then show ?thesis by (simp add: ProgressANSI_display_def)
next
  case False
  then show ?thesis
    using suppressed_object [of rd False dm self p]
    by (simp add: ProgressANSI_display_def Let_def)
qed

lemma ProgressCR_display_object:
  "fst (snd (ProgressCR_display fmt rd nf dm self p)) =
     self\<lparr>last_display := last_display (fst (snd (ProgressCR_display fmt rd nf dm self p)))\<rparr>"
proof (cases nf)
  case True
  then show ?thesis by (simp add: ProgressCR_display_def)
next
  case False
  then show ?thesis
    using suppressed_object [of rd False dm self p]
    by (simp add: ProgressCR_display_def Let_def)
qed

lemma Progress_display_keeps [simp]:
  "cls (fst (snd (Progress_display fmt nf dm self p))) = cls self"
  "labels (fst (snd (Progress_display fmt nf dm self p))) = labels self"
  "total_size (fst (snd (Progress_display fmt nf dm self p))) = total_size self"
  "initial_position (fst (snd (Progress_display fmt nf dm self p))) = initial_position self"
  "current_position (fst (snd (Progress_display fmt nf dm self p))) = current_position self"
  "time_start (fst (snd (Progress_display fmt nf dm self p))) = time_start self"
  "time_last (fst (snd (Progress_display fmt nf dm self p))) = time_last self"
  "time_current (fst (snd (Progress_display fmt nf dm self p))) = time_current self"
  "last_display (fst (snd (Progress_display fmt nf dm self p))) = last_display self"
  by (subst Progress_display_object, simp)+

lemma ProgressANSI_display_keeps [simp]:
  "cls (fst (snd (ProgressANSI_display fmt rd nf dm self p))) = cls self"
  "labels (fst (snd (ProgressANSI_display fmt rd nf dm self p))) = labels self"
  "total_size (fst (snd (ProgressANSI_display fmt rd nf dm self p))) = total_size self"
  "initial_position (fst (snd (ProgressANSI_display fmt rd nf dm self p))) = initial_position self"
  "current_position (fst (snd (ProgressANSI_display fmt rd nf dm self p))) = current_position self"
  "time_start (fst (snd (ProgressANSI_display fmt rd nf dm self p))) = time_start self"
  "time_last (fst (snd (ProgressANSI_display fmt rd nf dm self p))) = time_last self"
  "time_current (fst (snd (ProgressANSI_display fmt rd nf dm self p))) = time_current self"
  "last_milestone (fst (snd (ProgressANSI_display fmt rd nf dm self p))) = last_milestone self"
  by (subst ProgressANSI_display_object, simp)+

lemma ProgressCR_display_keeps [simp]:
  "cls (fst (snd (ProgressCR_display fmt rd nf dm self p))) = cls self"
  "labels (fst (snd (ProgressCR_display fmt rd nf dm self p))) = labels self"
  "total_size (fst (snd (ProgressCR_display fmt rd nf dm self p))) = total_size self"
  "initial_position (fst (snd (ProgressCR_display fmt rd nf dm self p))) = initial_position self"
  "current_position (fst (snd (ProgressCR_display fmt rd nf dm self p))) = current_position self"
  "time_start (fst (snd (ProgressCR_display fmt rd nf dm self p))) = time_start self"
  "time_last (fst (snd (ProgressCR_display fmt rd nf dm self p))) = time_last self"
  "time_current (fst (snd (ProgressCR_display fmt rd nf dm self p))) = time_current self"
  "last_milestone (fst (snd (ProgressCR_display fmt rd nf dm self p))) = last_milestone self"
  by (subst ProgressCR_display_object, simp)+

lemma display_keeps [simp]:
  "cls (fst (snd (display fmt rd nf dm self p))) = cls self"
  "labels (fst (snd (display fmt rd nf dm self p))) = labels self"
  "total_size (fst (snd (display fmt rd nf dm self p))) = total_size self"
  "initial_position (fst (snd (display fmt rd nf dm self p))) = initial_position self"
  "current_position (fst (snd (display fmt rd nf dm self p))) = current_position self"
  "time_start (fst (snd (display fmt rd nf dm self p))) = time_start self"
  "time_last (fst (snd (display fmt rd nf dm self p))) = time_last self"
  "time_current (fst (snd (display fmt rd nf dm self p))) = time_current self"
  by (cases "cls self"; simp add: display_def)+

lemma Progress_init_raised [simp]: "raised (Progress_init c fmt rd lbls ts p) = None"
  by (cases c) (simp_all add: Progress_init_def new_file_def display_def Progress_display_def
      ProgressANSI_display_def ProgressCR_display_def Let_def)

lemma Progress_init_object:
  "object (Progress_init c fmt rd lbls ts p) =
     \<lparr>cls = c, labels = lbls, total_size = ts, initial_position = 0, current_position = 0,
      time_start = dt_now rd, time_last = dt_now rd, time_current = dt_now rd,
      last_milestone = (if c = Progress then Some 0 else None), last_display = None\<rparr>"
  by (cases c) (simp_all add: Progress_init_def new_file_def display_def Progress_display_def
      ProgressANSI_display_def ProgressCR_display_def Let_def)

lemma ProgressANSI_display_raised [simp]: "raised (ProgressANSI_display fmt rd nf dm self p) = None"
  by (simp add: ProgressANSI_display_def Let_def)

lemma ProgressCR_display_raised [simp]: "raised (ProgressCR_display fmt rd nf dm self p) = None"
  by (simp add: ProgressCR_display_def Let_def)

lemma percent_zero_total [simp]: "percent (self\<lparr>total_size := 0\<rparr>) = 0"
  by (simp add: percent_def)

subsection \<open>update\<close>

text \<open>
  Claim C5. For every tracker and every call \<open>update(current_position,
  delta_position)\<close>, an argument left out being \<open>-1\<close>: the call is a render
  (\<open>display\<close> with \<open>new_file = False\<close> and no message) of the object in which
  \<open>time_last\<close> has the old \<open>time_current\<close>, \<open>time_current\<close> has the clock's
  value, and the position is \<open>current_position\<close> if that is above \<open>-1\<close>, else the old
  position plus \<open>delta_position\<close> if that is above \<open>-1\<close>, else the old position;
  the render leaves these three attributes as they are.
\<close>

theorem update_times_position_render:
  "update fmt rd cur_position delta_position self p =
     display fmt rd False None
       (self\<lparr>time_last := time_current self, time_current := dt_now rd,
              current_position :=
                (if cur_position > - 1 then cur_position
                 else if delta_position > - 1 then current_position self + delta_position
                 else current_position self)\<rparr>) p
   \<and> time_last (fst (snd (update fmt rd cur_position delta_position self p))) = time_current self
   \<and> time_current (fst (snd (update fmt rd cur_position delta_position self p))) = dt_now rd
   \<and> current_position (fst (snd (update fmt rd cur_position delta_position self p))) =
       (if cur_position > - 1 then cur_position
        else if delta_position > - 1 then current_position self + delta_position
        else current_position self)"
proof -
  let ?s = "self\<lparr>time_last := time_current self, time_current := dt_now rd,
              current_position :=
                (if cur_position > - 1 then cur_position
                 else if delta_position > - 1 then current_position self + delta_position
                 else current_position self)\<rparr>"
  have eq: "update fmt rd cur_position delta_position self p = display fmt rd False None ?s p"
    by (simp add: update_def Let_def)
  show ?thesis
    unfolding eq by simp
qed

subsection \<open>Division by zero\<close>

text \<open>
  Claim C1 does not hold of the plain variant. A plain tracker made for a transfer of
  size 0 and updated to position 5 reaches \<open>(current_position * 100) // total_size\<close>
  with \<open>total_size = 0\<close>: \<open>ZeroDivisionError\<close>, whatever the formatter, the labels
  and the clocks. The two subclasses guard the division (\<open>percent\<close> is 0 when the
  total is 0) and their \<open>display\<close> never raises.
\<close>

theorem plain_update_zero_total_raises:
  "raised (update fmt rd 5 (- 1) (object (Progress_init Progress fmt rd0 lbls 0 p))
             (process_of (Progress_init Progress fmt rd0 lbls 0 p))) = Some ZeroDivisionError
   \<and> percent (self\<lparr>total_size := 0\<rparr>) = 0
   \<and> raised (ProgressANSI_display fmt rd nf dm self p) = None
   \<and> raised (ProgressCR_display fmt rd nf dm self p) = None"
  by (simp add: Progress_init_object update_def display_def Progress_display_def Let_def)

text \<open>
  Claim C6 does not hold of the plain variant. A plain tracker made for a transfer of
  size 0 has \<open>current_position = total_size\<close> and \<open>time_current = time_start\<close>;
  \<open>done\<close> reads no clock, so the completion path divides by an elapsed time of
  zero: \<open>ZeroDivisionError\<close>, whatever the message. The two subclasses test
  \<open>sec_elapsed > 0\<close> first, report the rate \<open>(0, "")\<close> and never raise.
\<close>

theorem plain_done_zero_elapsed_raises:
  "raised (done' fmt rd message (object (Progress_init Progress fmt rd0 lbls 0 p))
             (process_of (Progress_init Progress fmt rd0 lbls 0 p))) = Some ZeroDivisionError
   \<and> sec_elapsed_of (time_current (self\<lparr>time_current := time_start self\<rparr>) -
                       time_start (self\<lparr>time_current := time_start self\<rparr>)) = 0
   \<and> print_speed_of fmt self 0 = (PInt 0, [])
   \<and> raised (ProgressANSI_display fmt rd nf dm (self\<lparr>time_current := time_start self\<rparr>) p) = None
   \<and> raised (ProgressCR_display fmt rd nf dm (self\<lparr>time_current := time_start self\<rparr>) p) = None"
  by (simp add: Progress_init_object done'_def display_def Progress_display_def Let_def
      print_speed_of_def)

subsection \<open>The milestone fragment\<close>

text \<open>
  Claim C3 does not hold of the code. A plain tracker made for a transfer of size 100
  and updated to position 50 has \<open>rel_position = 50\<close>, which is at least the
  milestone 0: \<open>last_milestone\<close> becomes 50, and then \<open>write\<close> is called with two
  arguments, the format string and the milestone, and raises \<open>TypeError\<close>. Nothing
  is written.
\<close>

theorem plain_milestone_write_raises:
  "update fmt rd 50 (- 1) (object (Progress_init Progress fmt rd0 lbls 100 p))
       (process_of (Progress_init Progress fmt rd0 lbls 100 p)) =
     (Some TypeError,
      (object (Progress_init Progress fmt rd0 lbls 100 p))
        \<lparr>time_current := dt_now rd, current_position := 50, last_milestone := Some 50\<rparr>,
      process_of (Progress_init Progress fmt rd0 lbls 100 p))"
  by (simp add: Progress_init_object update_def display_def Progress_display_def Let_def)

subsection \<open>done\<close>

lemma is_true_str_simps [simp]:
  "is_true_str None = False" "is_true_str (Some m) = (m \<noteq> [])"
  by (simp_all add: is_true_str_def)

lemma suppressed_message [simp]:
  "m \<noteq> [] \<Longrightarrow> suppressed rd nf (Some m) self p = (False, self)"
  by (simp add: suppressed_def)

lemma write_text_stdout: "write_text t p = p\<lparr>stdout := stdout p @ t\<rparr>"
  by (simp add: write_text_def)

lemma done_ANSI:
  assumes "cls self = ProgressANSI" "message \<noteq> []"
  shows "done' fmt rd message self p =
     (None, self,
      p\<lparr>stdout := stdout p @ ANSI_restore_cursor_pos @ ANSI_erase_to_eol @
           status_ANSI fmt self @ ''  '' @ message @ ''\<newline>''\<rparr>)"
  using assms
  by (simp add: done'_def display_def ProgressANSI_display_def Let_def write_text_stdout)

lemma done_CR:
  assumes "cls self = ProgressCR" "message \<noteq> []"
  shows "done' fmt rd message self p =
     (None, self,
      p\<lparr>stdout := stdout p @ CR_char @ status_CR fmt self @ ''  '' @ message @ ''\<newline>''\<rparr>)"
  using assms
  by (simp add: done'_def display_def ProgressCR_display_def Let_def write_text_stdout)

lemma frac_digits_numeral:
  "frac_digits (numeral k) f =
     (let d = \<lfloor>f * 10\<rfloor>; f' = f * 10 - of_int d
      in digit_char (nat d) # (if f' = 0 then [] else frac_digits (pred_numeral k) f'))"
  by (simp add: numeral_eq_Suc)

lemma frac_digits_whole: "frac_digits 12 0 = ''0''"
  by (simp add: frac_digits_numeral digit_char_def)

lemma fmt_2f_one: "fmt_2f 1 = ''1.00''"
  by (simp add: fmt_2f_def round_half_even_def Let_def digits.simps digit_char_def)

lemma fmt_2f_hundred: "fmt_2f 100 = ''100.00''"
  by (simp add: fmt_2f_def round_half_even_def Let_def digits.simps digit_char_def)

lemma str_num_hundred: "str_num (PFloat 100) = ''100.0''"
  by (simp add: str_num_def str_float_def digits.simps digit_char_def frac_digits_whole)

lemma plain_complete_eq:
  "plain_complete =
     (None,
      \<lparr>cls = Progress, labels = example_labels, total_size = 100, initial_position = 0,
       current_position = 100, time_start = 0, time_last = 0, time_current = 1000000,
       last_milestone = Some 0, last_display = None\<rparr>,
      \<lparr>Progress_last_display = 0,
       stdout = ''upload: '' @ [CHR 0x27] @ ''a.txt'' @ [CHR 0x27] @ '' -> '' @ [CHR 0x27] @
                ''s3://b/a.txt'' @ [CHR 0x27] @ ''  [1 of 1]\<newline>'' @
                ''100%  100.0 in 1.00s (100.00 B/s)\<newline>''\<rparr>)"
  by (simp add: plain_complete_def Progress_init_def new_file_def update_def display_def
      Progress_display_def Let_def clock_def process_start_def output_labels_def write_text_def
      example_labels_def sec_elapsed_of_def format_size_def float_of_def fmt_2f_one fmt_2f_hundred str_num_hundred)

text \<open>
  Claim C2 does not hold of the plain variant: \<open>Progress.display\<close> takes
  \<open>done_message\<close> and never reads it. A plain tracker for 100 bytes, complete after
  one second, answers \<open>done("failed")\<close> by writing the completion line once more; the
  message is not in the output. The two subclasses do what the claim says: for a
  message that is not empty (\<open>c # m\<close>) they write the control characters, the status
  line, two spaces, the message as it is and a newline.
\<close>

theorem plain_done_drops_message:
  "done' format_size (clock 1000000 1001) ''failed'' (object plain_complete) (process_of plain_complete) =
     (None, object plain_complete,
      (process_of plain_complete)
        \<lparr>stdout := stdout (process_of plain_complete) @
                   ''100%  100.0 in 1.00s (100.00 B/s)\<newline>''\<rparr>)
   \<and> stdout (process_of (done' fmt rd (c # m) (self\<lparr>cls := ProgressANSI\<rparr>) p)) =
       stdout p @ ANSI_restore_cursor_pos @ ANSI_erase_to_eol @
       status_ANSI fmt (self\<lparr>cls := ProgressANSI\<rparr>) @ ''  '' @ (c # m) @ ''\<newline>''
   \<and> stdout (process_of (done' fmt rd (c # m) (self\<lparr>cls := ProgressCR\<rparr>) p)) =
       stdout p @ CR_char @ status_CR fmt (self\<lparr>cls := ProgressCR\<rparr>) @ ''  '' @ (c # m) @
       ''\<newline>''"
proof (intro conjI)
  show "done' format_size (clock 1000000 1001) ''failed'' (object plain_complete)
          (process_of plain_complete) =
     (None, object plain_complete,
      (process_of plain_complete)
        \<lparr>stdout := stdout (process_of plain_complete) @
                   ''100%  100.0 in 1.00s (100.00 B/s)\<newline>''\<rparr>)"
    unfolding plain_complete_eq
    by (simp add: done'_def display_def Progress_display_def Let_def write_text_def
        sec_elapsed_of_def format_size_def float_of_def fmt_2f_one fmt_2f_hundred
        str_num_hundred)
  show "stdout (process_of (done' fmt rd (c # m) (self\<lparr>cls := ProgressANSI\<rparr>) p)) =
       stdout p @ ANSI_restore_cursor_pos @ ANSI_erase_to_eol @
       status_ANSI fmt (self\<lparr>cls := ProgressANSI\<rparr>) @ ''  '' @ (c # m) @ ''\<newline>''"
    by (simp add: done_ANSI)
  show "stdout (process_of (done' fmt rd (c # m) (self\<lparr>cls := ProgressCR\<rparr>) p)) =
       stdout p @ CR_char @ status_CR fmt (self\<lparr>cls := ProgressCR\<rparr>) @ ''  '' @ (c # m) @
       ''\<newline>''"
    by (simp add: done_CR)
qed

subsection \<open>The throttle\<close>

lemma control_not_empty [simp]:
  "ANSI_restore_cursor_pos \<noteq> []" "CR_char \<noteq> []"
  by (simp_all add: ANSI_restore_cursor_pos_def SCI_def CR_char_def)

lemma display_throttled:
  assumes "cls self \<noteq> Progress" "\<not> is_true_str dm"
  shows "raised (display fmt rd False dm self p) = None"
    and "1 < time_1 rd - get_last_display self p \<Longrightarrow>
           stdout (process_of (display fmt rd False dm self p)) \<noteq> stdout p \<and>
           last_display (object (display fmt rd False dm self p)) = Some (time_2 rd)"
    and "\<not> 1 < time_1 rd - get_last_display self p \<Longrightarrow>
           process_of (display fmt rd False dm self p) = p \<and>
           last_display (object (display fmt rd False dm self p)) = last_display self"
  using assms
  by (cases "cls self";
      simp add: display_def ProgressANSI_display_def ProgressCR_display_def suppressed_def
        display_needed_def Let_def)+

lemma get_last_display_cong:
  "last_display s = last_display self \<Longrightarrow> get_last_display s p = get_last_display self p"
  by (simp add: get_last_display_def)

lemma throttled_invoke:
  assumes "cls self \<noteq> Progress" "throttled_call c"
  shows "raised (invoke fmt rd c self p) = None"
    and "1 < time_1 rd - get_last_display self p \<Longrightarrow>
           stdout (process_of (invoke fmt rd c self p)) \<noteq> stdout p \<and>
           last_display (object (invoke fmt rd c self p)) = Some (time_2 rd)"
    and "\<not> 1 < time_1 rd - get_last_display self p \<Longrightarrow>
           process_of (invoke fmt rd c self p) = p \<and>
           last_display (object (invoke fmt rd c self p)) = last_display self"
proof -
  obtain s dm where inv: "invoke fmt rd c self p = display fmt rd False dm s p"
    and dm: "\<not> is_true_str dm" and s: "cls s = cls self" "last_display s = last_display self"
  proof (cases c)
    case (NewFile l t)
    then show ?thesis using assms(2) by (simp add: throttled_call_def)
  next
    case (Update cur delta)
    show ?thesis
      by (rule that [of None "self\<lparr>time_last := time_current self, time_current := dt_now rd,
              current_position :=
                (if cur > - 1 then cur
                 else if delta > - 1 then current_position self + delta
                 else current_position self)\<rparr>"])
        (simp_all add: Update invoke_def update_def Let_def)
  next
    case (Done m)
    then have "m = []" using assms(2) by (simp add: throttled_call_def)
    then show ?thesis
      by (intro that [of "Some []" self]) (simp_all add: Done invoke_def done'_def)
  qed
  have g: "get_last_display s p = get_last_display self p"
    using s(2) by (rule get_last_display_cong)
  have c: "cls s \<noteq> Progress" using s(1) assms(1) by simp
  show "raised (invoke fmt rd c self p) = None"
    unfolding inv using display_throttled(1) [OF c dm] .
  show "1 < time_1 rd - get_last_display self p \<Longrightarrow>
           stdout (process_of (invoke fmt rd c self p)) \<noteq> stdout p \<and>
           last_display (object (invoke fmt rd c self p)) = Some (time_2 rd)"
    unfolding inv using display_throttled(2) [OF c dm, of rd p fmt] g by simp
  show "\<not> 1 < time_1 rd - get_last_display self p \<Longrightarrow>
           process_of (invoke fmt rd c self p) = p \<and>
           last_display (object (invoke fmt rd c self p)) = last_display self"
    unfolding inv using display_throttled(3) [OF c dm, of rd p fmt] g s(2) by simp
qed

lemma suppressed_last_display:
  "last_display (snd (suppressed rd nf dm self p)) = last_display self \<or>
   last_display (snd (suppressed rd nf dm self p)) = Some (time_2 rd)"
  by (simp add: suppressed_def display_needed_def Let_def)

lemma display_last_display:
  "last_display (object (display fmt rd nf dm self p)) = last_display self \<or>
   last_display (object (display fmt rd nf dm self p)) = Some (time_2 rd)"
proof (cases "cls self")
  case Progress
  then show ?thesis by (simp add: display_def)
next
  case ProgressANSI
  then show ?thesis
    using suppressed_last_display [of rd nf dm self p]
    by (cases nf) (auto simp add: display_def ProgressANSI_display_def Let_def)
next
  case ProgressCR
  then show ?thesis
    using suppressed_last_display [of rd nf dm self p]
    by (cases nf) (auto simp add: display_def ProgressCR_display_def Let_def)
qed

lemma invoke_last_display:
  "last_display (object (invoke fmt rd c self p)) = last_display self \<or>
   last_display (object (invoke fmt rd c self p)) = Some (time_2 rd)"
proof (cases c)
  case (NewFile l t)
  show ?thesis
    using display_last_display [of fmt rd True None
        "self\<lparr>labels := l, total_size := t, initial_position := 0, current_position := 0,
           time_start := dt_now rd, time_last := dt_now rd, time_current := dt_now rd\<rparr>" p]
    by (simp add: NewFile invoke_def new_file_def Let_def)
next
  case (Update cur delta)
  let ?s = "self\<lparr>time_last := time_current self, time_current := dt_now rd,
              current_position :=
                (if cur > - 1 then cur
                 else if delta > - 1 then current_position self + delta
                 else current_position self)\<rparr>"
  have u: "invoke fmt rd c self p = display fmt rd False None ?s p"
    by (simp add: Update invoke_def update_def Let_def)
  have l: "last_display ?s = last_display self"
    by simp
  show ?thesis
    unfolding u using display_last_display [of fmt rd False None ?s p] by (simp only: l)
next
  case (Done m)
  show ?thesis
    using display_last_display [of fmt rd False "Some m" self p]
    by (simp add: Done invoke_def done'_def)
qed

lemma invoke_cls [simp]: "cls (object (invoke fmt rd c self p)) = cls self"
  by (cases c) (simp_all add: invoke_def new_file_def update_def done'_def Let_def)

lemma run_cls: "cls (object (last (r # run fmt cs (object r) (process_of r)))) = cls (object r)"
proof (induction cs arbitrary: r)
  case Nil
  show ?case by simp
next
  case (Cons a cs)
  obtain rd c where a: "a = (rd, c)" by (cases a)
  show ?case
    using Cons.IH [of "invoke fmt rd c (object r) (process_of r)"]
    by (simp add: a Let_def)
qed

lemma run_last_display:
  assumes "last_display (object r) = Some t" "t1 \<le> t"
    and "\<forall>(rd, c) \<in> set cs. t1 \<le> time_2 rd"
  shows "\<exists>t'. last_display (object (last (r # run fmt cs (object r) (process_of r)))) = Some t' \<and>
              t1 \<le> t'"
  using assms
proof (induction cs arbitrary: r t)
  case Nil
  then show ?case by simp
next
  case (Cons a cs)
  obtain rd c where a: "a = (rd, c)" by (cases a)
  let ?r = "invoke fmt rd c (object r) (process_of r)"
  have rd: "t1 \<le> time_2 rd" using Cons.prems(3) a by simp
  have rest: "\<forall>(rd, c) \<in> set cs. t1 \<le> time_2 rd" using Cons.prems(3) by simp
  obtain t' where t': "last_display (object ?r) = Some t'" "t1 \<le> t'"
    using invoke_last_display [of fmt rd c "object r" "process_of r"] Cons.prems(1,2) rd
    by auto
  show ?case
    using Cons.IH [OF t' rest] by (simp add: a Let_def)
qed

lemma output_labels_class_attr [simp]:
  "Progress_last_display (output_labels self p) = Progress_last_display p"
  by (simp add: output_labels_def)

lemma output_labels_stdout [simp]: "stdout (output_labels self p) \<noteq> stdout p"
  by (simp add: output_labels_def)

lemma display_class_attr [simp]:
  "Progress_last_display (process_of (display fmt rd nf dm self p)) = Progress_last_display p"
  by (cases "cls self")
    (simp_all add: display_def Progress_display_def ProgressANSI_display_def
      ProgressCR_display_def Let_def split: option.split)

lemma invoke_class_attr [simp]:
  "Progress_last_display (process_of (invoke fmt rd c self p)) = Progress_last_display p"
  by (cases c) (simp_all add: invoke_def new_file_def update_def done'_def Let_def)

lemma Progress_init_class_attr [simp]:
  "Progress_last_display (process_of (Progress_init c fmt rd lbls ts p)) = Progress_last_display p"
  by (simp add: Progress_init_def new_file_def Let_def)

lemma Progress_init_stdout [simp]:
  "stdout (process_of (Progress_init c fmt rd lbls ts p)) \<noteq> stdout p"
  by (cases c)
    (simp_all add: Progress_init_def new_file_def Let_def display_def Progress_display_def
      ProgressANSI_display_def ProgressCR_display_def output_labels_def)

lemma fresh_get_last_display:
  "get_last_display (object (Progress_init c fmt rd lbls ts p)) q = Progress_last_display q"
  by (simp add: Progress_init_object get_last_display_def)

lemma ansi_started_facts:
  "cls (object ansi_started) = ProgressANSI"
  "get_last_display (object ansi_started) (process_of ansi_started) = 0"
  by (simp add: ansi_started_def Progress_init_object)
    (simp add: ansi_started_def fresh_get_last_display process_start_def)

text \<open>
  Claim C4, as stated, fails when the first of the two calls rendered without a
  throttle check. The new-file announcement of an ANSI-cursor tracker at time 1000
  writes the labels; an \<open>update\<close> half a second later, with no message, is rendered
  all the same: the announcement has not stored a time, and the class attribute still
  reads 0. (A render made for a \<open>done\<close> message stores no time either.)
\<close>

theorem new_file_then_update_counterexample:
  "stdout (process_of ansi_started) \<noteq> stdout process_start
   \<and> stdout (process_of (update format_size (clock 500000 (2001 / 2)) 10 (- 1)
                (object ansi_started) (process_of ansi_started))) \<noteq> stdout (process_of ansi_started)
   \<and> time_1 (clock 500000 (2001 / 2)) - time_1 (clock 0 1000) \<le> 1"
proof (intro conjI)
  show "stdout (process_of ansi_started) \<noteq> stdout process_start"
    by (simp add: ansi_started_def)
  have c: "cls (object ansi_started) \<noteq> Progress"
    by (simp add: ansi_started_facts)
  have t: "throttled_call (Update 10 (- 1))"
    by (simp add: throttled_call_def)
  have "1 < time_1 (clock 500000 (2001 / 2)) -
            get_last_display (object ansi_started) (process_of ansi_started)"
    by (simp add: ansi_started_facts clock_def)
  from throttled_invoke(2) [OF c t this, of format_size]
  show "stdout (process_of (update format_size (clock 500000 (2001 / 2)) 10 (- 1)
                (object ansi_started) (process_of ansi_started))) \<noteq> stdout (process_of ansi_started)"
    by (simp add: invoke_def)
  show "time_1 (clock 500000 (2001 / 2)) - time_1 (clock 0 1000) \<le> 1"
    by (simp add: clock_def)
qed

text \<open>
  Claim C4, amended. On an ANSI-cursor or carriage-return tracker, with a clock that
  does not run backwards: let a first call with no message to show and no new file
  (an \<open>update\<close>, or a \<open>done\<close> with the empty message) at time \<open>t1\<close> produce
  output, that is, pass the throttle check. Then after any calls in between, a second
  such call at a time \<open>t2\<close> with \<open>t2 - t1 \<le> 1\<close> raises nothing and writes nothing.
  So the second call produces output only if \<open>t2 - t1 > 1\<close>, or it carries a message
  that is not empty, or it announces a new file.
\<close>

theorem throttle_window:
  assumes "cls self \<noteq> Progress"
    and "throttled_call c1" and "throttled_call c2"
    and "stdout (process_of (invoke fmt rd1 c1 self p)) \<noteq> stdout p"
    and "time_1 rd1 \<le> time_2 rd1"
    and "\<forall>(rd, c) \<in> set cs. time_1 rd1 \<le> time_2 rd"
    and "r = last (invoke fmt rd1 c1 self p #
                   run fmt cs (object (invoke fmt rd1 c1 self p))
                     (process_of (invoke fmt rd1 c1 self p)))"
    and "time_1 rd2 - time_1 rd1 \<le> 1"
  shows "raised (invoke fmt rd2 c2 (object r) (process_of r)) = None \<and>
         process_of (invoke fmt rd2 c2 (object r) (process_of r)) = process_of r"
proof -
  let ?r1 = "invoke fmt rd1 c1 self p"
  have passed: "1 < time_1 rd1 - get_last_display self p"
  proof (rule ccontr)
    assume n: "\<not> 1 < time_1 rd1 - get_last_display self p"
    have "process_of ?r1 = p"
      using throttled_invoke(3) [OF assms(1,2) n] by simp
    then show False
      using assms(4) by simp
  qed
  have stamp: "last_display (object ?r1) = Some (time_2 rd1)"
    using throttled_invoke(2) [OF assms(1,2) passed] by simp
  obtain t where t: "last_display (object r) = Some t" "time_1 rd1 \<le> t"
    using run_last_display [OF stamp assms(5,6)] assms(7) by auto
  have c: "cls (object r) \<noteq> Progress"
    using run_cls [where r = ?r1 and fmt = fmt and cs = cs] assms(1,7) by simp
  have near: "\<not> 1 < time_1 rd2 - get_last_display (object r) (process_of r)"
    using t assms(8) by (simp add: get_last_display_def)
  show ?thesis
    using throttled_invoke(1) [OF c assms(3)] throttled_invoke(3) [OF c assms(3) near]
    by simp
qed

theorem throttle_window_witness:
  "raised (invoke format_size (clock 2500000 (2005 / 2)) (Update 20 (- 1))
             (object ansi_noted) (process_of ansi_noted)) = None
   \<and> process_of (invoke format_size (clock 2500000 (2005 / 2)) (Update 20 (- 1))
                   (object ansi_noted) (process_of ansi_noted)) = process_of ansi_noted"
proof -
  have c: "cls (object ansi_started) \<noteq> Progress"
    by (simp add: ansi_started_facts)
  have t1: "throttled_call (Update 10 (- 1))" and t2: "throttled_call (Update 20 (- 1))"
    by (simp_all add: throttled_call_def)
  have "1 < time_1 (clock 2000000 1002) -
            get_last_display (object ansi_started) (process_of ansi_started)"
    by (simp add: ansi_started_facts clock_def)
  from throttled_invoke(2) [OF c t1 this, of format_size]
  have out: "stdout (process_of (invoke format_size (clock 2000000 1002) (Update 10 (- 1))
                (object ansi_started) (process_of ansi_started))) \<noteq> stdout (process_of ansi_started)"
    by simp
  have k1: "time_1 (clock 2000000 1002) \<le> time_2 (clock 2000000 1002)"
    by (simp add: clock_def)
  have ks: "\<forall>(rd, c) \<in> set [(clock 2200000 (5011 / 5), Done ''note'')].
              time_1 (clock 2000000 1002) \<le> time_2 rd"
    by (simp add: clock_def)
  have r: "ansi_noted =
      last (invoke format_size (clock 2000000 1002) (Update 10 (- 1))
              (object ansi_started) (process_of ansi_started) #
            run format_size [(clock 2200000 (5011 / 5), Done ''note'')]
              (object (invoke format_size (clock 2000000 1002) (Update 10 (- 1))
                 (object ansi_started) (process_of ansi_started)))
              (process_of (invoke format_size (clock 2000000 1002) (Update 10 (- 1))
                 (object ansi_started) (process_of ansi_started))))"
    unfolding ansi_noted_def ansi_rendered_def ..
  have near: "time_1 (clock 2500000 (2005 / 2)) - time_1 (clock 2000000 1002) \<le> 1"
    by (simp add: clock_def)
  show ?thesis
    by (rule throttle_window [OF c t1 t2 out k1 ks r near])
qed

text \<open>
  Claim C9 fails: the time of the last render is not shared. An ANSI-cursor tracker
  renders at time 1002; a second tracker of the same class, made at 1002.2 in the same
  process, is updated at 1002.5, and its render is not suppressed.
\<close>

theorem second_instance_renders_counterexample:
  "stdout (process_of ansi_rendered) \<noteq> stdout (process_of ansi_started)
   \<and> stdout (process_of (update format_size (clock 2500000 (2005 / 2)) 5 (- 1)
                (object ansi_second) (process_of ansi_second))) \<noteq> stdout (process_of ansi_second)
   \<and> time_1 (clock 2500000 (2005 / 2)) - time_1 (clock 2000000 1002) \<le> 1"
proof (intro conjI)
  have c: "cls (object ansi_started) \<noteq> Progress"
    by (simp add: ansi_started_facts)
  have t: "throttled_call (Update 10 (- 1))"
    by (simp add: throttled_call_def)
  have "1 < time_1 (clock 2000000 1002) -
            get_last_display (object ansi_started) (process_of ansi_started)"
    by (simp add: ansi_started_facts clock_def)
  from throttled_invoke(2) [OF c t this, of format_size]
  show "stdout (process_of ansi_rendered) \<noteq> stdout (process_of ansi_started)"
    by (simp add: ansi_rendered_def)
  have p: "Progress_last_display (process_of ansi_rendered) = 0"
    by (simp add: ansi_rendered_def ansi_started_def process_start_def)
  have c2: "cls (object ansi_second) \<noteq> Progress"
    by (simp add: ansi_second_def Progress_init_object)
  have t2: "throttled_call (Update 5 (- 1))"
    by (simp add: throttled_call_def)
  have "1 < time_1 (clock 2500000 (2005 / 2)) -
            get_last_display (object ansi_second) (process_of ansi_second)"
    using p by (simp add: ansi_second_def fresh_get_last_display clock_def)
  from throttled_invoke(2) [OF c2 t2 this, of format_size]
  show "stdout (process_of (update format_size (clock 2500000 (2005 / 2)) 5 (- 1)
                (object ansi_second) (process_of ansi_second))) \<noteq> stdout (process_of ansi_second)"
    by (simp add: invoke_def)
  show "time_1 (clock 2500000 (2005 / 2)) - time_1 (clock 2000000 1002) \<le> 1"
    by (simp add: clock_def)
qed

text \<open>
  Claim C9, amended. The throttle timestamp is state of the instance:
  \<open>_display_needed\<close> stores it on the object, and the class attribute keeps the 0 of
  the class body, whatever call another instance makes. A freshly constructed
  ANSI-cursor or carriage-return tracker has no timestamp of its own, reads the 0 of
  the class, and so its first call with no message and no new file is rendered (and
  stamps that tracker only) whenever the clock shows more than 1 second, however
  recently another instance has rendered.
\<close>

theorem throttle_stamp_per_instance:
  assumes "Progress_last_display p = 0"
    and "c \<noteq> Progress"
    and "throttled_call cB"
    and "1 < time_1 rd"
    and "pA = process_of (invoke fmt rdA cA a p)"
    and "b = Progress_init c fmt rdB lbls tsize pA"
  shows "Progress_last_display pA = 0
    \<and> last_display (object b) = None
    \<and> raised (invoke fmt rd cB (object b) (process_of b)) = None
    \<and> stdout (process_of (invoke fmt rd cB (object b) (process_of b))) \<noteq> stdout (process_of b)
    \<and> last_display (object (invoke fmt rd cB (object b) (process_of b))) = Some (time_2 rd)
    \<and> Progress_last_display (process_of (invoke fmt rd cB (object b) (process_of b))) = 0"
proof -
  have pA: "Progress_last_display pA = 0"
    using assms(1,5) by simp
  have cb: "cls (object b) \<noteq> Progress"
    using assms(2,6) by (simp add: Progress_init_object)
  have g: "get_last_display (object b) (process_of b) = 0"
    using assms(6) pA by (simp add: fresh_get_last_display)
  have pass: "1 < time_1 rd - get_last_display (object b) (process_of b)"
    using assms(4) g by simp
  have none: "last_display (object b) = None"
    using assms(6) by (simp add: Progress_init_object)
  have attr: "Progress_last_display (process_of (invoke fmt rd cB (object b) (process_of b))) = 0"
    using assms(6) pA by simp
  show ?thesis
    using pA none throttled_invoke(1) [OF cb assms(3)] throttled_invoke(2) [OF cb assms(3) pass] attr
    by simp
qed

theorem throttle_stamp_per_instance_witness:
  "Progress_last_display (process_of ansi_rendered) = 0
    \<and> last_display (object ansi_second) = None
    \<and> raised (invoke format_size (clock 2500000 (2005 / 2)) (Update 5 (- 1))
                (object ansi_second) (process_of ansi_second)) = None
    \<and> stdout (process_of (invoke format_size (clock 2500000 (2005 / 2)) (Update 5 (- 1))
                (object ansi_second) (process_of ansi_second))) \<noteq> stdout (process_of ansi_second)
    \<and> last_display (object (invoke format_size (clock 2500000 (2005 / 2)) (Update 5 (- 1))
                (object ansi_second) (process_of ansi_second))) =
        Some (time_2 (clock 2500000 (2005 / 2)))
    \<and> Progress_last_display (process_of (invoke format_size (clock 2500000 (2005 / 2)) (Update 5 (- 1))
                (object ansi_second) (process_of ansi_second))) = 0"
proof -
  have p0: "Progress_last_display (process_of ansi_started) = 0"
    by (simp add: ansi_started_def process_start_def)
  have c: "ProgressANSI \<noteq> Progress" by simp
  have t: "throttled_call (Update 5 (- 1))" by (simp add: throttled_call_def)
  have k: "1 < time_1 (clock 2500000 (2005 / 2))" by (simp add: clock_def)
  show ?thesis
    by (rule throttle_stamp_per_instance [OF p0 c t k ansi_rendered_def [THEN arg_cong [of _ _ process_of]] ansi_second_def])
qed

subsection \<open>Milestones\<close>

lemma percent_at_most_100:
  fixes n ts :: int
  assumes "0 < ts" "n \<le> ts"
  shows "n * 100 div ts \<le> 100"
proof -
  have "n * 100 div ts \<le> ts * 100 div ts"
    using assms by (intro zdiv_mono1) simp_all
  then show ?thesis
    using assms by simp
qed

lemma milestone_step:
  fixes m rel :: int
  assumes "5 dvd m" "m \<le> rel"
  shows "m \<le> rel div 5 * 5" "5 dvd rel div 5 * 5" "rel div 5 * 5 \<le> rel"
  using assms by presburger+

lemma Progress_display_milestone:
  assumes "0 < total_size self" "last_milestone self = Some m" "5 dvd m"
  shows "\<exists>m'. last_milestone (object (Progress_display fmt False dm self p)) = Some m' \<and>
           m \<le> m' \<and> 5 dvd m' \<and>
           (current_position self \<le> total_size self \<longrightarrow> m \<le> 100 \<longrightarrow> m' \<le> 100)"
proof (cases "current_position self = total_size self")
  case True
  then show ?thesis
    using assms by (simp add: Progress_display_def Let_def)
next
  case False
  let ?rel = "current_position self * 100 div total_size self"
  show ?thesis
  proof (cases "m \<le> ?rel")
    case True
    have "last_milestone (object (Progress_display fmt False dm self p)) = Some (?rel div 5 * 5)"
      using assms(1,2) False True by (simp add: Progress_display_def Let_def)
    moreover have "current_position self \<le> total_size self \<longrightarrow> ?rel div 5 * 5 \<le> 100"
    proof
      assume "current_position self \<le> total_size self"
      then have "?rel \<le> 100"
        by (rule percent_at_most_100 [OF assms(1)])
      then show "?rel div 5 * 5 \<le> 100"
        using milestone_step(3) [OF assms(3) True] by linarith
    qed
    ultimately show ?thesis
      using milestone_step(1,2) [OF assms(3) True] by simp
  next
    case no: False
    have "last_milestone (object (Progress_display fmt False dm self p)) = Some m"
      using assms(1,2) False no by (simp add: Progress_display_def Let_def)
    then show ?thesis
      using assms by simp
  qed
qed

lemma update_milestone:
  assumes "cls self = Progress" "0 < total_size self"
    "last_milestone self = Some m" "5 dvd m"
  shows "\<exists>m'. last_milestone (object (update fmt rd cur delta self p)) = Some m' \<and>
           m \<le> m' \<and> 5 dvd m' \<and>
           (current_position (object (update fmt rd cur delta self p)) \<le> total_size self \<longrightarrow>
            m \<le> 100 \<longrightarrow> m' \<le> 100)"
proof -
  let ?s = "self\<lparr>time_last := time_current self, time_current := dt_now rd,
              current_position :=
                (if cur > - 1 then cur
                 else if delta > - 1 then current_position self + delta
                 else current_position self)\<rparr>"
  have u: "update fmt rd cur delta self p = Progress_display fmt False None ?s p"
    using assms(1) by (simp add: update_def Let_def display_def)
  have t: "0 < total_size ?s" and l: "last_milestone ?s = Some m"
    using assms(2,3) by simp_all
  have k: "current_position (object (Progress_display fmt False None ?s p)) = current_position ?s"
    by simp
  show ?thesis
    unfolding u k using Progress_display_milestone [OF t l assms(4), of fmt None p] by simp
qed

lemma update_keeps [simp]:
  "cls (object (update fmt rd cur delta self p)) = cls self"
  "total_size (object (update fmt rd cur delta self p)) = total_size self"
  by (simp_all add: update_def Let_def)

lemma run_milestones:
  assumes "cls self = Progress" "0 < total_size self"
    "last_milestone self = Some m" "5 dvd m"
  shows "\<exists>ms. map (\<lambda>r. last_milestone (object r))
               (run fmt (map (\<lambda>(rd, cur, delta). (rd, Update cur delta)) us) self p) = map Some ms \<and>
             sorted (m # ms) \<and> (\<forall>x \<in> set ms. 5 dvd x) \<and>
             (m \<le> 100 \<longrightarrow>
              (\<forall>r \<in> set (run fmt (map (\<lambda>(rd, cur, delta). (rd, Update cur delta)) us) self p).
                 current_position (object r) \<le> total_size (object r)) \<longrightarrow>
              (\<forall>x \<in> set ms. x \<le> 100))"
  using assms
proof (induction us arbitrary: self p m)
  case Nil
  show ?case by simp
next
  case (Cons u us)
  obtain rd cur delta where u: "u = (rd, cur, delta)" by (cases u)
  let ?r = "update fmt rd cur delta self p"
  let ?U = "\<lambda>(rd, cur, delta). (rd, Update cur delta)"
  have run: "run fmt (map ?U (u # us)) self p = ?r # run fmt (map ?U us) (object ?r) (process_of ?r)"
    by (simp add: u invoke_def Let_def)
  obtain m' where m': "last_milestone (object ?r) = Some m'" "m \<le> m'" "5 dvd m'"
      "current_position (object ?r) \<le> total_size self \<longrightarrow> m \<le> 100 \<longrightarrow> m' \<le> 100"
    using update_milestone [OF Cons.prems(1,2,3,4), of fmt rd cur delta p] by blast
  have c: "cls (object ?r) = Progress" using Cons.prems(1) by simp
  have t: "0 < total_size (object ?r)" using Cons.prems(2) by simp
  obtain ms where ms: "map (\<lambda>r. last_milestone (object r))
               (run fmt (map ?U us) (object ?r) (process_of ?r)) = map Some ms"
      "sorted (m' # ms)" "\<forall>x \<in> set ms. 5 dvd x"
      "m' \<le> 100 \<longrightarrow>
         (\<forall>r \<in> set (run fmt (map ?U us) (object ?r) (process_of ?r)).
            current_position (object r) \<le> total_size (object r)) \<longrightarrow>
         (\<forall>x \<in> set ms. x \<le> 100)"
    using Cons.IH [OF c t m'(1) m'(3)] by blast
  have "map (\<lambda>r. last_milestone (object r)) (run fmt (map ?U (u # us)) self p) = map Some (m' # ms)"
    unfolding run using m'(1) ms(1) by simp
  moreover have "sorted (m # m' # ms)"
    using ms(2) m'(2) by auto
  moreover have "\<forall>x \<in> set (m' # ms). 5 dvd x"
    using ms(3) m'(3) by simp
  moreover have "m \<le> 100 \<longrightarrow>
         (\<forall>r \<in> set (run fmt (map ?U (u # us)) self p).
            current_position (object r) \<le> total_size (object r)) \<longrightarrow>
         (\<forall>x \<in> set (m' # ms). x \<le> 100)"
    unfolding run using m'(4) ms(4) by simp
  ultimately show ?case by blast
qed

text \<open>
  Claim C7, as stated, fails on the upper end of the range: nothing keeps the position
  below the total. A plain tracker for 10 bytes updated from position 0 to position 20
  has \<open>rel_position = 200\<close> and \<open>last_milestone = 200\<close>.
\<close>

theorem milestone_above_100_counterexample:
  "total_size (object plain_small) = 10
   \<and> current_position (object plain_small) = 0
   \<and> current_position (object (update format_size (clock 1000000 1001) 20 (- 1)
        (object plain_small) (process_of plain_small))) = 20
   \<and> last_milestone (object (update format_size (clock 1000000 1001) 20 (- 1)
        (object plain_small) (process_of plain_small))) = Some 200"
  by (simp add: plain_small_def Progress_init_object update_def Let_def display_def
      Progress_display_def)

text \<open>
  Claim C7, amended. In the plain variant, after \<open>new_file\<close> with a total size above
  0, for every sequence of \<open>update\<close> calls: \<open>last_milestone\<close> is set after every
  call, its values are non-decreasing along the sequence, and each is a multiple of 5
  and at least 0; each is at most 100 as well when the position never exceeds the total
  size in the sequence. (This holds whether or not the positions are non-decreasing. A
  call may raise, see C3; the object is then as the raise left it.)
\<close>

theorem milestones_monotone:
  assumes "cls self = Progress" and "0 < tsize"
    and "r0 = new_file fmt rd0 lbls tsize self p"
    and "calls = map (\<lambda>(rd, cur_position, delta_position). (rd, Update cur_position delta_position)) us"
  shows "\<exists>ms. map (\<lambda>r. last_milestone (object r)) (r0 # run fmt calls (object r0) (process_of r0)) =
               map Some ms \<and>
             sorted ms \<and> (\<forall>m \<in> set ms. 5 dvd m \<and> 0 \<le> m) \<and>
             ((\<forall>r \<in> set (run fmt calls (object r0) (process_of r0)).
                 current_position (object r) \<le> total_size (object r)) \<longrightarrow>
              (\<forall>m \<in> set ms. m \<le> 100))"
proof -
  have o: "object r0 = self\<lparr>labels := lbls, total_size := tsize, initial_position := 0,
      current_position := 0, time_start := dt_now rd0, time_last := dt_now rd0,
      time_current := dt_now rd0, last_milestone := Some 0\<rparr>"
    using assms(1,3) by (simp add: new_file_def Let_def display_def Progress_display_def)
  have c: "cls (object r0) = Progress" and t: "0 < total_size (object r0)"
    and m: "last_milestone (object r0) = Some 0"
    using assms(1,2) by (simp_all add: o)
  have d: "(5::int) dvd 0" by simp
  obtain ms where ms: "map (\<lambda>r. last_milestone (object r))
        (run fmt calls (object r0) (process_of r0)) = map Some ms"
      "sorted (0 # ms)" "\<forall>x \<in> set ms. 5 dvd x"
      "(\<forall>r \<in> set (run fmt calls (object r0) (process_of r0)).
          current_position (object r) \<le> total_size (object r)) \<longrightarrow>
       (\<forall>x \<in> set ms. x \<le> 100)"
    using run_milestones [OF c t m d, of fmt us "process_of r0"] unfolding assms(4) by auto
  have "map (\<lambda>r. last_milestone (object r)) (r0 # run fmt calls (object r0) (process_of r0)) =
          map Some (0 # ms)"
    using m ms(1) by simp
  moreover have "sorted (0 # ms)" by (rule ms(2))
  moreover have "\<forall>x \<in> set (0 # ms). 5 dvd x \<and> 0 \<le> x"
    using ms(2,3) by simp
  moreover have "(\<forall>r \<in> set (run fmt calls (object r0) (process_of r0)).
          current_position (object r) \<le> total_size (object r)) \<longrightarrow>
       (\<forall>x \<in> set (0 # ms). x \<le> 100)"
    using ms(4) by simp
  ultimately show ?thesis by blast
qed

theorem milestones_monotone_witness:
  "\<exists>ms. map (\<lambda>r. last_milestone (object r))
          (plain_reused #
           run format_size
             (map (\<lambda>(rd, cur_position, delta_position). (rd, Update cur_position delta_position))
                example_updates)
             (object plain_reused) (process_of plain_reused)) =
        map Some ms \<and>
        sorted ms \<and> (\<forall>m \<in> set ms. 5 dvd m \<and> 0 \<le> m \<and> m \<le> 100)"
proof -
  have c: "cls (object plain_complete) = Progress"
    by (simp add: plain_complete_def Let_def update_def Progress_init_def new_file_def)
  have t: "(0::int) < 100" by simp
  have o: "total_size (object plain_reused) = 100" "current_position (object plain_reused) = 0"
    by (simp_all add: plain_reused_def new_file_def Let_def)
  have le: "\<forall>r \<in> set (run format_size
             (map (\<lambda>(rd, cur_position, delta_position). (rd, Update cur_position delta_position))
                example_updates)
             (object plain_reused) (process_of plain_reused)).
           current_position (object r) \<le> total_size (object r)"
    by (simp add: example_updates_def invoke_def Let_def update_def o)
  show ?thesis
    using milestones_monotone [OF c t plain_reused_def refl, of example_updates] le
    by blast
qed

section \<open>Properties of StatsInfo.format_output\<close>

lemma block_if:
  "(if b then outstr @ pre @ (if z then t @ u else t) else outstr) =
   outstr @ (if b then pre @ t @ (if z then u else []) else [])"
  by simp

lemma total_line_if:
  "total_line st =
     (if files st \<noteq> None
      then ''\<newline>Stats: '' @ (''Number of files: '' @ str_int (the (files st))) @
           (if size' st \<noteq> None then '' ('' @ str_int (the (size' st)) @ '' bytes) '' else [])
      else [])"
  by (cases "files st"; cases "size' st"; simp add: total_line_def stats_line_def)

lemma category_line_if:
  "category_line c count sz =
     (if is_true_int count
      then ''\<newline>Stats: '' @ (''Number of files'' @ c @ '': '' @ str_int (the count)) @
           (if sz \<noteq> None then '' ('' @ str_int (the sz) @ '' bytes) '' else [])
      else [])"
  by (cases count; cases sz; simp add: category_line_def stats_line_def is_true_int_def)

lemma format_output_lines:
  "format_output st =
     total_line st @
     category_line '' transferred'' (files_transferred st) (size_transferred st) @
     category_line '' copied'' (files_copied st) (size_copied st) @
     category_line '' deleted'' (files_deleted st) (size_deleted st)"
  unfolding format_output_def Let_def block_if total_line_if category_line_if
  by (simp split del: if_split cong: if_cong)

lemma category_line_absent [simp]:
  "category_line c None sz = []" "category_line c (Some 0) sz = []"
  by (simp_all add: category_line_def)

text \<open>
  Claim C8. For every \<open>StatsInfo\<close>, \<open>format_output\<close> is the total line, then the
  transferred, the copied and the deleted line, in this order. The total line is there
  exactly when \<open>files\<close> is not \<open>None\<close> (also when it is zero), each of the other
  three exactly when its count is set and not zero; a line is \<open>"\nStats: "\<close>, then
  \<open>"Number of files <category>: <N>"\<close>, then \<open>" (<size> bytes) "\<close> when the
  matching size is set (\<open>stats_line\<close>). With \<open>files = 10\<close>, \<open>size = 2048\<close> and
  nothing else set the output is the single line
  \<open>"\nStats: Number of files: 10 (2048 bytes) "\<close>.
\<close>

theorem format_output_report:
  "format_output st =
     total_line st @
     category_line '' transferred'' (files_transferred st) (size_transferred st) @
     category_line '' copied'' (files_copied st) (size_copied st) @
     category_line '' deleted'' (files_deleted st) (size_deleted st)
   \<and> format_output (StatsInfo_init\<lparr>files := Some 10, size' := Some 2048\<rparr>) =
       ''\<newline>Stats: Number of files: 10 (2048 bytes) ''"
proof
  show "format_output st =
     total_line st @
     category_line '' transferred'' (files_transferred st) (size_transferred st) @
     category_line '' copied'' (files_copied st) (size_copied st) @
     category_line '' deleted'' (files_deleted st) (size_deleted st)"
    by (rule format_output_lines)
  show "format_output (StatsInfo_init\<lparr>files := Some 10, size' := Some 2048\<rparr>) =
       ''\<newline>Stats: Number of files: 10 (2048 bytes) ''"
    by code_simp
qed

text \<open>
  Claim C10, as stated, fails for the total: with \<open>files = 0\<close> and \<open>size = 5\<close> the
  count is zero and the size is set, and the report still has the total line, size
  included (the test of the total is \<open>is not None\<close>, not the truth value).
\<close>

theorem size_with_zero_total_counterexample:
  "format_output (StatsInfo_init\<lparr>files := Some 0, size' := Some 5\<rparr>) =
     ''\<newline>Stats: Number of files: 0 (5 bytes) ''
   \<and> format_output (StatsInfo_init\<lparr>files := Some 0, size' := Some 5\<rparr>) \<noteq> []"
  by code_simp

text \<open>
  Claim C10, amended. When the transferred, copied or deleted count is absent or zero,
  or the total count is absent, a size set for that category changes nothing: the
  report is the lines of the other three categories, with no line for that one and the
  size nowhere in it.
\<close>

theorem size_without_count_omitted:
  "(files_transferred st = None \<or> files_transferred st = Some 0 \<longrightarrow>
      format_output (st\<lparr>size_transferred := Some z\<rparr>) =
        total_line st @
        category_line '' copied'' (files_copied st) (size_copied st) @
        category_line '' deleted'' (files_deleted st) (size_deleted st))
   \<and> (files_copied st = None \<or> files_copied st = Some 0 \<longrightarrow>
      format_output (st\<lparr>size_copied := Some z\<rparr>) =
        total_line st @
        category_line '' transferred'' (files_transferred st) (size_transferred st) @
        category_line '' deleted'' (files_deleted st) (size_deleted st))
   \<and> (files_deleted st = None \<or> files_deleted st = Some 0 \<longrightarrow>
      format_output (st\<lparr>size_deleted := Some z\<rparr>) =
        total_line st @
        category_line '' transferred'' (files_transferred st) (size_transferred st) @
        category_line '' copied'' (files_copied st) (size_copied st))
   \<and> (files st = None \<longrightarrow>
      format_output (st\<lparr>size' := Some z\<rparr>) =
        category_line '' transferred'' (files_transferred st) (size_transferred st) @
        category_line '' copied'' (files_copied st) (size_copied st) @
        category_line '' deleted'' (files_deleted st) (size_deleted st))"
  by (auto simp add: format_output_lines total_line_def split: option.split)

theorem size_without_count_omitted_witness:
  "format_output (StatsInfo_init\<lparr>files_transferred := Some 0, size_transferred := Some 7\<rparr>) = []
   \<and> format_output (StatsInfo_init\<lparr>size_copied := Some 7\<rparr>) = []
   \<and> format_output (StatsInfo_init\<lparr>files_deleted := Some 0, size_deleted := Some 7\<rparr>) = []
   \<and> format_output (StatsInfo_init\<lparr>size' := Some 7\<rparr>) = []"
  using size_without_count_omitted [of "StatsInfo_init\<lparr>files_transferred := Some 0\<rparr>" 7]
    size_without_count_omitted [of "StatsInfo_init" 7]
    size_without_count_omitted [of "StatsInfo_init\<lparr>files_deleted := Some 0\<rparr>" 7]
  by (simp add: StatsInfo_init_def total_line_def)

end
